theory Spec2Isabelle
  imports Main
begin

section \<open>Python values, errors and string primitives\<close>

text \<open>
  The two scripts \<^verbatim>\<open>fetch_apa_excel.py\<close> (CSV export) and \<^verbatim>\<open>fetch_apa_word.py\<close>
  (document export) share their names \<^verbatim>\<open>fetch_metadata\<close> and \<^verbatim>\<open>format_apa\<close>; the
  embeddings carry the suffixes \<open>_excel\<close> and \<open>_word\<close>.

  A Python \<^verbatim>\<open>str\<close> is a \<^typ>\<open>string\<close>; one \<^typ>\<open>char\<close> stands for one code point in
  the range 0..255. The metadata dictionary holds strings and, under \<^verbatim>\<open>"Year"\<close>, an
  integer, so its values are a small tagged union.
\<close>

datatype pyval = PStr string | PInt int

datatype py_error = IndexError | KeyError string | ValueError

type_synonym pydict = "string \<rightharpoonup> pyval"

text \<open>\<^verbatim>\<open>str(e)\<close> of the exceptions the embedded code can raise.\<close>

fun str_error :: "py_error \<Rightarrow> string" where
  "str_error IndexError = ''list index out of range''"
| "str_error (KeyError k) = [CHR 0x27] @ k @ [CHR 0x27]"
| "str_error ValueError =
     ''Exceeds the limit (4300 digits) for integer string conversion; use sys.set_int_max_str_digits() to increase the limit''"

text \<open>\<^verbatim>\<open>d[k]\<close> on a dictionary raises \<^verbatim>\<open>KeyError\<close> on a missing key.\<close>

definition getitem :: "pydict \<Rightarrow> string \<Rightarrow> py_error + pyval" where
  "getitem d k = (case d k of None \<Rightarrow> Inl (KeyError k) | Some v \<Rightarrow> Inr v)"

text \<open>Sequencing: an exception raised by a statement ends the statements after it.\<close>

definition bind_result :: "py_error + 'a \<Rightarrow> ('a \<Rightarrow> py_error + 'b) \<Rightarrow> py_error + 'b" where
  "bind_result r k = (case r of Inl e \<Rightarrow> Inl e | Inr v \<Rightarrow> k v)"

text \<open>\<^verbatim>\<open>d.get(k, default)\<close> on an optional field.\<close>

definition get :: "'a option \<Rightarrow> 'a \<Rightarrow> 'a" where
  "get field dflt = (case field of None \<Rightarrow> dflt | Some v \<Rightarrow> v)"

text \<open>
  Decimal rendering of an integer, as \<^verbatim>\<open>str\<close> and an f-string do. CPython (3.11, and
  the earlier versions that carry the same change) refuses to convert an integer of more
  than \<^verbatim>\<open>sys.get_int_max_str_digits()\<close> decimal digits, 4300 unless reconfigured, and
  raises \<^verbatim>\<open>ValueError\<close>; the scripts do not change the limit.
\<close>

definition digit_char :: "nat \<Rightarrow> char" where
  "digit_char d = char_of (48 + d)"

fun str_nat :: "nat \<Rightarrow> string" where
  "str_nat n = (if n < 10 then [digit_char n] else str_nat (n div 10) @ [digit_char (n mod 10)])"

declare str_nat.simps [simp del]

definition int_max_str_digits :: nat where
  "int_max_str_digits = 4300"

definition str_int :: "int \<Rightarrow> py_error + string" where
  "str_int i =
     (let digits = str_nat (nat \<bar>i\<bar>) in
      if length digits > int_max_str_digits then Inl ValueError
      else Inr (if i < 0 then CHR ''-'' # digits else digits))"

text \<open>The text an f-string substitutes for a value; converting an integer can raise.\<close>

fun py_str :: "pyval \<Rightarrow> py_error + string" where
  "py_str (PStr s) = Inr s"
| "py_str (PInt i) = str_int i"

text \<open>
  \<^verbatim>\<open>str.isspace\<close> on the code points below 256: tab, line feed, vertical tab, form
  feed, carriage return, the four separators 0x1C..0x1F, space, NEL (0x85) and the
  no-break space (0xA0).
\<close>

definition isspace :: "char \<Rightarrow> bool" where
  "isspace c = ((of_char c :: nat) \<in> {9, 10, 11, 12, 13, 28, 29, 30, 31, 32, 133, 160})"

text \<open>
  \<^verbatim>\<open>s.split()\<close> without arguments: runs of whitespace separate the tokens, leading and
  trailing whitespace is skipped, and no token is empty. \<open>split_from cur s\<close> scans \<open>s\<close>
  with the token \<open>cur\<close> collected so far.
\<close>

fun split_from :: "string \<Rightarrow> string \<Rightarrow> string list" where
  "split_from cur [] = (if cur = [] then [] else [cur])"
| "split_from cur (c # cs) =
     (if isspace c then (if cur = [] then split_from [] cs else cur # split_from [] cs)
      else split_from (cur @ [c]) cs)"

definition str_split :: "string \<Rightarrow> string list" where
  "str_split s = split_from [] s"

text \<open>\<^verbatim>\<open>sep.join(xs)\<close>.\<close>

fun str_join :: "string \<Rightarrow> string list \<Rightarrow> string" where
  "str_join sep [] = []"
| "str_join sep [x] = x"
| "str_join sep (x # y # ys) = x @ sep @ str_join sep (y # ys)"

section \<open>The CrossRef response\<close>

text \<open>
  The parsed JSON of the response, with the keys the scripts read. An absent key is
  \<open>None\<close>. \<open>date_parts\<close> is a list of lists whose entries are integers or \<^verbatim>\<open>null\<close>.
\<close>

record author =
  given :: "string option"
  family :: "string option"

record published =
  date_parts :: "int option list list option"

record item =
  item_author :: "author list option"
  item_published_print :: "published option"
  item_container_title :: "string list option"
  item_volume :: "string option"
  item_issue :: "string option"
  item_page :: "string option"
  item_DOI :: "string option"

record message =
  items :: "item list option"

record data =
  message :: "message option"

section \<open>Author formatting (both scripts)\<close>

text \<open>\<^verbatim>\<open>name[0] + "."\<close>; indexing an empty string raises \<^verbatim>\<open>IndexError\<close>.\<close>

fun initial :: "string \<Rightarrow> py_error + string" where
  "initial [] = Inl IndexError"
| "initial (c # cs) = Inr ([c] @ ''.'')"

text \<open>A list comprehension whose element expression can raise: the first error wins.\<close>

fun comprehension :: "('a \<Rightarrow> py_error + 'b) \<Rightarrow> 'a list \<Rightarrow> py_error + 'b list" where
  "comprehension f [] = Inr []"
| "comprehension f (x # xs) =
     (case f x of Inl e \<Rightarrow> Inl e
      | Inr y \<Rightarrow> (case comprehension f xs of Inl e \<Rightarrow> Inl e | Inr ys \<Rightarrow> Inr (y # ys)))"

text \<open>\<^verbatim>\<open>" ".join([name[0] + "." for name in given.split()])\<close>\<close>

definition initials :: "string \<Rightarrow> py_error + string" where
  "initials g =
     (case comprehension initial (str_split g) of Inl e \<Rightarrow> Inl e
      | Inr ns \<Rightarrow> Inr (str_join '' '' ns))"

text \<open>
  The loop over \<^verbatim>\<open>item["author"]\<close> that fills the list \<^verbatim>\<open>authors\<close>: an author is
  appended when both \<^verbatim>\<open>given\<close> and \<^verbatim>\<open>family\<close> are truthy (non-empty).
\<close>

fun authors_loop :: "author list \<Rightarrow> py_error + string list" where
  "authors_loop [] = Inr []"
| "authors_loop (a # as) =
     (let g = get (given a) ''''; f = get (family a) '''' in
      if g \<noteq> [] \<and> f \<noteq> [] then
        (case initials g of Inl e \<Rightarrow> Inl e
         | Inr ini \<Rightarrow>
             (case authors_loop as of Inl e \<Rightarrow> Inl e
              | Inr rest \<Rightarrow> Inr ((f @ '', '' @ ini) # rest)))
      else authors_loop as)"

text \<open>\<^verbatim>\<open>authors = []\<close>, then the loop when \<^verbatim>\<open>"author" in item\<close>.\<close>

definition item_authors :: "item \<Rightarrow> py_error + string list" where
  "item_authors it = (case item_author it of None \<Rightarrow> Inr [] | Some as \<Rightarrow> authors_loop as)"

text \<open>The CSV script combines the entries by their number (lines 33 to 41).\<close>

definition author_string_excel :: "string list \<Rightarrow> string" where
  "author_string_excel authors =
     (if length authors = 1 then authors ! 0
      else if length authors = 2 then str_join '' & '' authors
      else if length authors > 2 then str_join '', '' (butlast authors) @ '', & '' @ last authors
      else ''N/A'')"

text \<open>The document script: \<^verbatim>\<open>", ".join(authors) if authors else "N/A"\<close>.\<close>

definition author_string_word :: "string list \<Rightarrow> string" where
  "author_string_word authors = (if authors \<noteq> [] then str_join '', '' authors else ''N/A'')"

section \<open>Building the metadata dictionary\<close>

text \<open>
  \<^verbatim>\<open>item.get("published-print", {}).get("date-parts", [[None]])[0][0] or "n.d."\<close>:
  both indexings raise on an empty list, and \<^verbatim>\<open>None\<close> and \<^verbatim>\<open>0\<close> are falsy.
\<close>

definition item_year :: "item \<Rightarrow> py_error + pyval" where
  "item_year it =
     (let pp = get (item_published_print it) \<lparr>date_parts = None\<rparr>;
          dp = get (date_parts pp) [[None]]
      in case dp of [] \<Rightarrow> Inl IndexError
         | row # _ \<Rightarrow>
             (case row of [] \<Rightarrow> Inl IndexError
              | y # _ \<Rightarrow>
                  (case y of None \<Rightarrow> Inr (PStr ''n.d.'')
                   | Some n \<Rightarrow> Inr (if n \<noteq> 0 then PInt n else PStr ''n.d.''))))"

text \<open>\<^verbatim>\<open>item.get("container-title", ["N/A"])[0] or "N/A"\<close>\<close>

definition item_journal :: "item \<Rightarrow> py_error + pyval" where
  "item_journal it =
     (case get (item_container_title it) [''N/A''] of [] \<Rightarrow> Inl IndexError
      | j # _ \<Rightarrow> Inr (PStr (if j \<noteq> [] then j else ''N/A'')))"

text \<open>The dictionary literal; its values are evaluated in the order written.\<close>

definition metadata_dict :: "string \<Rightarrow> string \<Rightarrow> item \<Rightarrow> py_error + pydict" where
  "metadata_dict author_string title it =
     (case item_year it of Inl e \<Rightarrow> Inl e
      | Inr year \<Rightarrow>
          (case item_journal it of Inl e \<Rightarrow> Inl e
           | Inr journal \<Rightarrow>
               Inr [''Author'' \<mapsto> PStr author_string,
                    ''Year'' \<mapsto> year,
                    ''Title'' \<mapsto> PStr title,
                    ''Journal'' \<mapsto> journal,
                    ''Volume'' \<mapsto> PStr (get (item_volume it) ''N/A''),
                    ''Issue'' \<mapsto> PStr (get (item_issue it) ''N/A''),
                    ''Pages'' \<mapsto> PStr (get (item_page it) ''N/A''),
                    ''DOI'' \<mapsto> PStr (get (item_DOI it) ''N/A'')]))"

text \<open>The body of the \<^verbatim>\<open>try\<close> block once an item has been selected.\<close>

definition item_metadata_excel :: "string \<Rightarrow> item \<Rightarrow> py_error + pydict" where
  "item_metadata_excel title it =
     (case item_authors it of Inl e \<Rightarrow> Inl e
      | Inr authors \<Rightarrow> metadata_dict (author_string_excel authors) title it)"

definition item_metadata_word :: "string \<Rightarrow> item \<Rightarrow> py_error + pydict" where
  "item_metadata_word title it =
     (case item_authors it of Inl e \<Rightarrow> Inl e
      | Inr authors \<Rightarrow> metadata_dict (author_string_word authors) title it)"

text \<open>
  \<^verbatim>\<open>fetch_metadata(title)\<close>. The network exchange is the parameter \<open>response\<close>:
  \<open>Inl e\<close> when \<^verbatim>\<open>requests.get\<close>, \<^verbatim>\<open>raise_for_status\<close> or \<^verbatim>\<open>response.json\<close> raised an
  exception whose text is \<open>e\<close>, \<open>Inr d\<close> for the parsed body. Every exception of the
  \<^verbatim>\<open>try\<close> block becomes the dictionary \<^verbatim>\<open>{"Error": str(e)}\<close>.
\<close>

definition first_item :: "data \<Rightarrow> item option" where
  "first_item d =
     (case message d of None \<Rightarrow> None
      | Some m \<Rightarrow> (case items m of None \<Rightarrow> None | Some [] \<Rightarrow> None | Some (it # _) \<Rightarrow> Some it))"

definition error_dict :: "string \<Rightarrow> pydict" where
  "error_dict e = [''Error'' \<mapsto> PStr e]"

definition fetch_metadata_excel :: "string \<Rightarrow> string + data \<Rightarrow> pydict" where
  "fetch_metadata_excel title response =
     (case response of Inl e \<Rightarrow> error_dict e
      | Inr d \<Rightarrow>
          (case first_item d of None \<Rightarrow> error_dict ''No data found for this title.''
           | Some it \<Rightarrow>
               (case item_metadata_excel title it of Inl e \<Rightarrow> error_dict (str_error e)
                | Inr metadata \<Rightarrow> metadata)))"

definition fetch_metadata_word :: "string \<Rightarrow> string + data \<Rightarrow> pydict" where
  "fetch_metadata_word title response =
     (case response of Inl e \<Rightarrow> error_dict e
      | Inr d \<Rightarrow>
          (case first_item d of None \<Rightarrow> error_dict ''No data found for this title.''
           | Some it \<Rightarrow>
               (case item_metadata_word title it of Inl e \<Rightarrow> error_dict (str_error e)
                | Inr metadata \<Rightarrow> metadata)))"

section \<open>Composing the reference\<close>

text \<open>
  \<^verbatim>\<open>f"({metadata['Issue']})" if metadata["Issue"] != "N/A" else ""\<close> and the
  corresponding line for the DOI, on a value already looked up. The f-string converts
  the value, so it can raise.
\<close>

definition issue_segment :: "pyval \<Rightarrow> py_error + string" where
  "issue_segment v =
     (if v \<noteq> PStr ''N/A'' then bind_result (py_str v) (\<lambda>s. Inr (''('' @ s @ '')''))
      else Inr '''')"

definition doi_segment :: "pyval \<Rightarrow> py_error + string" where
  "doi_segment v =
     (if v \<noteq> PStr ''N/A'' then bind_result (py_str v) (\<lambda>s. Inr (''https://doi.org/'' @ s))
      else Inr ''N/A'')"

text \<open>
  The assignments of \<^verbatim>\<open>format_apa\<close>, in the source's order: the first missing key
  raises \<^verbatim>\<open>KeyError\<close>, and the issue and the DOI are formatted where they are assigned.
\<close>

record fields =
  f_author :: pyval
  f_year :: pyval
  f_title :: pyval
  f_journal :: pyval
  f_volume :: pyval
  f_issue :: string
  f_pages :: pyval
  f_doi :: string

definition lookups :: "pydict \<Rightarrow> py_error + fields" where
  "lookups metadata =
     bind_result (getitem metadata ''Author'') (\<lambda>author.
     bind_result (getitem metadata ''Year'') (\<lambda>year.
     bind_result (getitem metadata ''Title'') (\<lambda>title.
     bind_result (getitem metadata ''Journal'') (\<lambda>journal.
     bind_result (getitem metadata ''Volume'') (\<lambda>volume.
     bind_result (getitem metadata ''Issue'') (\<lambda>issue_value.
     bind_result (issue_segment issue_value) (\<lambda>issue.
     bind_result (getitem metadata ''Pages'') (\<lambda>pages.
     bind_result (getitem metadata ''DOI'') (\<lambda>doi_value.
     bind_result (doi_segment doi_value) (\<lambda>doi.
       Inr \<lparr>f_author = author, f_year = year, f_title = title, f_journal = journal,
            f_volume = volume, f_issue = issue, f_pages = pages, f_doi = doi\<rparr>))))))))))"

text \<open>
  The final f-string of the CSV script converts its values from left to right; the
  issue and the DOI are strings by then.
\<close>

definition apa_reference :: "fields \<Rightarrow> py_error + pyval" where
  "apa_reference r =
     bind_result (py_str (f_author r)) (\<lambda>author.
     bind_result (py_str (f_year r)) (\<lambda>year.
     bind_result (py_str (f_title r)) (\<lambda>title.
     bind_result (py_str (f_journal r)) (\<lambda>journal.
     bind_result (py_str (f_volume r)) (\<lambda>volume.
     bind_result (py_str (f_pages r)) (\<lambda>pages.
       Inr (PStr (author @ '' ('' @ year @ ''). '' @ title @ ''. *'' @ journal @ ''*, ''
                  @ volume @ f_issue r @ '', '' @ pages @ ''. '' @ f_doi r))))))))"

text \<open>The CSV script returns the error value as it is, or the f-string.\<close>

definition format_apa_excel :: "pydict \<Rightarrow> py_error + pyval" where
  "format_apa_excel metadata =
     (if ''Error'' \<in> dom metadata then getitem metadata ''Error''
      else bind_result (lookups metadata) apa_reference)"

text \<open>The document script returns the error value as it is, or a dictionary.\<close>

datatype reference = Message pyval | Reference pydict

definition format_apa_word :: "pydict \<Rightarrow> py_error + reference" where
  "format_apa_word metadata =
     (if ''Error'' \<in> dom metadata then
        (case getitem metadata ''Error'' of Inl e \<Rightarrow> Inl e | Inr v \<Rightarrow> Inr (Message v))
      else case lookups metadata of Inl e \<Rightarrow> Inl e
        | Inr r \<Rightarrow>
            Inr (Reference [''Author'' \<mapsto> f_author r,
                            ''Year'' \<mapsto> f_year r,
                            ''Title'' \<mapsto> f_title r,
                            ''Journal'' \<mapsto> f_journal r,
                            ''Volume'' \<mapsto> f_volume r,
                            ''Issue'' \<mapsto> PStr (f_issue r),
                            ''Pages'' \<mapsto> f_pages r,
                            ''DOI'' \<mapsto> PStr (f_doi r)]))"

section \<open>Notions of the specification\<close>

text \<open>
  The initials in the specification's words: split the given name on whitespace, take
  the first character of each token, append a full stop, join with one space.
\<close>

definition spec_initials :: "string \<Rightarrow> string" where
  "spec_initials g = str_join '' '' (map (\<lambda>name. [hd name] @ ''.'') (str_split g))"

text \<open>A usable author: neither \<^verbatim>\<open>given\<close> nor \<^verbatim>\<open>family\<close> is missing or empty.\<close>

definition usable :: "author \<Rightarrow> bool" where
  "usable a =
     (case given a of None \<Rightarrow> False
      | Some g \<Rightarrow> (case family a of None \<Rightarrow> False | Some f \<Rightarrow> g \<noteq> [] \<and> f \<noteq> []))"

text \<open>The rendered entry of an author, \<^verbatim>\<open>"{family}, {initials}"\<close>.\<close>

definition entry :: "author \<Rightarrow> string" where
  "entry a = get (family a) '''' @ '', '' @ spec_initials (get (given a) '''')"

text \<open>A well-shaped metadata record: no error marker, and the eight fields present.\<close>

definition well_shaped :: "pydict \<Rightarrow> bool" where
  "well_shaped m =
     (m ''Error'' = None \<and> m ''Author'' \<noteq> None \<and> m ''Year'' \<noteq> None \<and> m ''Title'' \<noteq> None
      \<and> m ''Journal'' \<noteq> None \<and> m ''Volume'' \<noteq> None \<and> m ''Issue'' \<noteq> None
      \<and> m ''Pages'' \<noteq> None \<and> m ''DOI'' \<noteq> None)"

text \<open>
  A well-typed metadata record, as \<open>fetch_metadata\<close> builds it: no error marker, the year an
  integer or the sentinel \<^verbatim>\<open>n.d.\<close>, every other field a string.
\<close>

definition is_str :: "pyval option \<Rightarrow> bool" where
  "is_str v = (case v of Some (PStr s) \<Rightarrow> True | _ \<Rightarrow> False)"

definition is_year :: "pyval option \<Rightarrow> bool" where
  "is_year v = (case v of Some (PInt n) \<Rightarrow> True | Some (PStr s) \<Rightarrow> s = ''n.d.'' | None \<Rightarrow> False)"

definition well_typed :: "pydict \<Rightarrow> bool" where
  "well_typed m =
     (m ''Error'' = None \<and> is_str (m ''Author'') \<and> is_year (m ''Year'') \<and> is_str (m ''Title'')
      \<and> is_str (m ''Journal'') \<and> is_str (m ''Volume'') \<and> is_str (m ''Issue'')
      \<and> is_str (m ''Pages'') \<and> is_str (m ''DOI''))"

text \<open>The keys of the fields other than the author string.\<close>

definition non_author_keys :: "string list" where
  "non_author_keys = [''Year'', ''Title'', ''Journal'', ''Volume'', ''Issue'', ''Pages'', ''DOI'']"

text \<open>
  A value that can be rendered as text: every string, and an integer of at most 4300
  decimal digits.
\<close>

fun renders :: "pyval \<Rightarrow> bool" where
  "renders (PStr s) = True"
| "renders (PInt i) = (\<bar>i\<bar> < 10 ^ int_max_str_digits)"

definition renders_at :: "pydict \<Rightarrow> string \<Rightarrow> bool" where
  "renders_at m k = (case m k of None \<Rightarrow> False | Some v \<Rightarrow> renders v)"

text \<open>The text of a value, when it can be rendered.\<close>

fun text_of :: "pyval \<Rightarrow> string" where
  "text_of (PStr s) = s"
| "text_of (PInt i) = (if i < 0 then CHR ''-'' # str_nat (nat \<bar>i\<bar>) else str_nat (nat \<bar>i\<bar>))"

section \<open>Example inputs\<close>

text \<open>A response whose first and only item is \<open>it\<close>.\<close>

definition found :: "item \<Rightarrow> string + data" where
  "found it = Inr \<lparr>message = Some \<lparr>items = Some [it]\<rparr>\<rparr>"

text \<open>An item that has authors and nothing else.\<close>

definition authors_only :: "author list \<Rightarrow> item" where
  "authors_only as =
     \<lparr>item_author = Some as, item_published_print = None, item_container_title = None,
      item_volume = None, item_issue = None, item_page = None, item_DOI = None\<rparr>"

definition person :: "string \<Rightarrow> string \<Rightarrow> author" where
  "person f g = \<lparr>given = Some g, family = Some f\<rparr>"

text \<open>The record of the specification's end-to-end example.\<close>

definition study_x :: item where
  "study_x =
     \<lparr>item_author = Some [person ''Lee'' ''Ann''],
      item_published_print = Some \<lparr>date_parts = Some [[Some 2020]]\<rparr>,
      item_container_title = Some [''J. of Things''],
      item_volume = Some ''5'', item_issue = Some ''2'', item_page = Some ''10-20'',
      item_DOI = Some ''10.1/abc''\<rparr>"

text \<open>A record in which every field holds its sentinel.\<close>

definition all_sentinels :: pydict where
  "all_sentinels =
     [''Author'' \<mapsto> PStr ''N/A'', ''Year'' \<mapsto> PStr ''n.d.'', ''Title'' \<mapsto> PStr ''Study X'',
      ''Journal'' \<mapsto> PStr ''N/A'', ''Volume'' \<mapsto> PStr ''N/A'', ''Issue'' \<mapsto> PStr ''N/A'',
      ''Pages'' \<mapsto> PStr ''N/A'', ''DOI'' \<mapsto> PStr ''N/A'']"



text \<open>The all-sentinel record with a year of 4301 digits.\<close>

definition long_year :: pydict where
  "long_year = all_sentinels(''Year'' \<mapsto> PInt (10 ^ int_max_str_digits))"

text \<open>The example item with an empty list of journal names.\<close>

definition study_x_no_journal :: item where
  "study_x_no_journal = study_x\<lparr>item_container_title := Some []\<rparr>"

section \<open>Splitting and initials\<close>

lemma split_from_nonempty: "t \<in> set (split_from cur s) \<Longrightarrow> t \<noteq> []"
  by (induction s arbitrary: cur) (auto split: if_splits)

lemma str_split_nonempty: "t \<in> set (str_split s) \<Longrightarrow> t \<noteq> []"
  unfolding str_split_def by (rule split_from_nonempty)

lemma split_from_whitespace: "\<forall>c\<in>set s. isspace c \<Longrightarrow> split_from [] s = []"
  by (induction s) auto

lemma comprehension_initial:
  "\<forall>t\<in>set ts. t \<noteq> [] \<Longrightarrow>
     comprehension initial ts = Inr (map (\<lambda>name. [hd name] @ ''.'') ts)"
proof (induction ts)
  case Nil
  show ?case by simp
next
  case (Cons t ts)
  then obtain c cs where "t = c # cs" by (cases t) auto
  with Cons show ?case by simp
qed

text \<open>\<^verbatim>\<open>name[0]\<close> never raises: no token of a split is empty.\<close>

lemma initials_total: "initials g = Inr (spec_initials g)"
  unfolding initials_def spec_initials_def
  by (simp add: comprehension_initial str_split_nonempty)

lemma usable_iff: "usable a \<longleftrightarrow> get (given a) '''' \<noteq> [] \<and> get (family a) '''' \<noteq> []"
  by (simp add: usable_def get_def split: option.splits)

lemma authors_loop_filter: "authors_loop as = Inr (map entry (filter usable as))"
  by (induction as) (simp_all add: Let_def initials_total usable_iff entry_def)

lemma item_authors_filter:
  "item_authors it = Inr (map entry (filter usable (get (item_author it) [])))"
  by (simp add: item_authors_def get_def authors_loop_filter split: option.splits)

section \<open>Decimal rendering\<close>


lemma str_nat_nonempty: "str_nat n \<noteq> []" "[] \<noteq> str_nat n"
  by (subst str_nat.simps, simp)+




text \<open>The number of digits: more than \<open>k\<close> from \<open>10 ^ k\<close> on, at most \<open>k\<close> below.\<close>

lemma str_nat_long: "10 ^ k \<le> n \<Longrightarrow> k < length (str_nat n)"
proof (induction k arbitrary: n)
  case 0
  from str_nat_nonempty(1) [of n] show ?case by (cases "str_nat n") simp_all
next
  case (Suc k)
  have "(10::nat) \<le> 10 * 10 ^ k"
    by simp
  also from Suc.prems have "\<dots> \<le> n"
    by simp
  finally have big: "\<not> n < 10"
    by simp
  from Suc.prems have "10 ^ k \<le> n div 10"
    by (simp add: less_eq_div_iff_mult_less_eq mult.commute)
  from Suc.IH [OF this] big show ?case
    by (simp add: str_nat.simps [of n])
qed

lemma str_nat_short: "n < 10 ^ k \<Longrightarrow> 0 < k \<Longrightarrow> length (str_nat n) \<le> k"
proof (induction k arbitrary: n)
  case 0
  then show ?case by simp
next
  case (Suc k)
  show ?case
  proof (cases "n < 10")
    case True
    then show ?thesis by (simp add: str_nat.simps [of n])
  next
    case False
    with Suc.prems have k: "0 < k"
      by (cases k) simp_all
    from Suc.prems have "n div 10 < 10 ^ k"
      by (simp add: div_less_iff_less_mult mult.commute)
    from Suc.IH [OF this k] False show ?thesis
      by (simp add: str_nat.simps [of n])
  qed
qed

lemma str_int_cases:
  "str_int i = (if \<bar>i\<bar> < 10 ^ int_max_str_digits
                then Inr (if i < 0 then CHR ''-'' # str_nat (nat \<bar>i\<bar>) else str_nat (nat \<bar>i\<bar>))
                else Inl ValueError)"
proof (cases "\<bar>i\<bar> < 10 ^ int_max_str_digits")
  case True
  then have "nat \<bar>i\<bar> < 10 ^ int_max_str_digits"
    by (simp add: nat_less_iff)
  then have "length (str_nat (nat \<bar>i\<bar>)) \<le> int_max_str_digits"
    by (rule str_nat_short) (simp add: int_max_str_digits_def)
  with True show ?thesis
    by (simp add: str_int_def Let_def)
next
  case False
  then have "10 ^ int_max_str_digits \<le> nat \<bar>i\<bar>"
    by (simp add: le_nat_iff)
  then have "int_max_str_digits < length (str_nat (nat \<bar>i\<bar>))"
    by (rule str_nat_long)
  with False show ?thesis
    by (simp add: str_int_def Let_def)
qed

lemma py_str_renders: "(\<exists>s. py_str v = Inr s) \<longleftrightarrow> renders v"
  by (cases v) (simp_all add: str_int_cases)



lemma str_int_2020: "str_int 2020 = Inr ''2020''"
  by code_simp

section \<open>Lookups of the composer\<close>

lemma issue_segment_str:
  "issue_segment (PStr i) = Inr (if i \<noteq> ''N/A'' then ''('' @ i @ '')'' else '''')"
  by (simp add: issue_segment_def bind_result_def)

lemma doi_segment_str:
  "doi_segment (PStr d) = Inr (if d \<noteq> ''N/A'' then ''https://doi.org/'' @ d else ''N/A'')"
  by (simp add: doi_segment_def bind_result_def)

lemma lookups_present:
  assumes "m ''Author'' = Some a" "m ''Year'' = Some y" "m ''Title'' = Some t"
    "m ''Journal'' = Some j" "m ''Volume'' = Some v" "m ''Issue'' = Some i"
    "m ''Pages'' = Some p" "m ''DOI'' = Some d"
  shows "lookups m =
     bind_result (issue_segment i) (\<lambda>issue. bind_result (doi_segment d) (\<lambda>doi.
       Inr \<lparr>f_author = a, f_year = y, f_title = t, f_journal = j, f_volume = v,
            f_issue = issue, f_pages = p, f_doi = doi\<rparr>))"
  using assms by (simp add: lookups_def bind_result_def getitem_def split: sum.splits)

lemma format_apa_excel_strings:
  assumes "m ''Error'' = None"
    and "m ''Author'' = Some (PStr a)" and "m ''Year'' = Some y"
    and "m ''Title'' = Some (PStr t)" and "m ''Journal'' = Some (PStr j)"
    and "m ''Volume'' = Some (PStr v)" and "m ''Issue'' = Some (PStr i)"
    and "m ''Pages'' = Some (PStr p)" and "m ''DOI'' = Some (PStr d)"
  shows "format_apa_excel m =
     bind_result (py_str y) (\<lambda>year.
       Inr (PStr (a @ '' ('' @ year @ ''). '' @ t @ ''. *'' @ j @ ''*, '' @ v
                  @ (if i \<noteq> ''N/A'' then ''('' @ i @ '')'' else '''') @ '', '' @ p @ ''. ''
                  @ (if d \<noteq> ''N/A'' then ''https://doi.org/'' @ d else ''N/A''))))"
proof -
  from assms have "lookups m =
      Inr \<lparr>f_author = PStr a, f_year = y, f_title = PStr t, f_journal = PStr j,
           f_volume = PStr v, f_issue = (if i \<noteq> ''N/A'' then ''('' @ i @ '')'' else ''''),
           f_pages = PStr p,
           f_doi = (if d \<noteq> ''N/A'' then ''https://doi.org/'' @ d else ''N/A'')\<rparr>"
    by (simp add: lookups_present [where m = m] issue_segment_str doi_segment_str bind_result_def)
  with assms(1) show ?thesis
    by (simp add: format_apa_excel_def apa_reference_def bind_result_def domIff)
qed


section \<open>The example items, fetched\<close>

lemmas fetch_defs = fetch_metadata_excel_def found_def first_item_def
  item_metadata_excel_def item_authors_filter metadata_dict_def item_year_def item_journal_def
  get_def usable_def entry_def spec_initials_def str_split_def isspace_def
  author_string_excel_def person_def

lemma fetch_study_x:
  "fetch_metadata_excel ''Study X'' (found study_x) =
     [''Author'' \<mapsto> PStr ''Lee, A.'', ''Year'' \<mapsto> PInt 2020, ''Title'' \<mapsto> PStr ''Study X'',
      ''Journal'' \<mapsto> PStr ''J. of Things'', ''Volume'' \<mapsto> PStr ''5'', ''Issue'' \<mapsto> PStr ''2'',
      ''Pages'' \<mapsto> PStr ''10-20'', ''DOI'' \<mapsto> PStr ''10.1/abc'']"
  by (simp add: fetch_defs study_x_def)




section \<open>The combination rule of the CSV script\<close>

text \<open>
  Claim C1. The CSV script combines the list of formatted authors by its length: the
  empty list gives the literal \<^verbatim>\<open>N/A\<close>, one entry is returned as it is, two entries
  are joined by \<^verbatim>\<open>" & "\<close>, and a list of three or more entries (any list of the form
  \<open>a # b # cs @ [l]\<close>) gives all but the last joined by \<^verbatim>\<open>", "\<close>, then \<^verbatim>\<open>", & "\<close>
  and the last. The specification's example of three authors comes out of
  \<open>fetch_metadata_excel\<close> as \<^verbatim>\<open>Smith, J., Doe, J., & Lee, K.\<close>
\<close>

theorem author_string_excel_by_count:
  "author_string_excel [] = ''N/A''
   \<and> author_string_excel [a] = a
   \<and> author_string_excel [a, b] = a @ '' & '' @ b
   \<and> author_string_excel (a # b # cs @ [l]) = str_join '', '' (a # b # cs) @ '', & '' @ l
   \<and> fetch_metadata_excel title
         (found (authors_only [person ''Smith'' ''John'', person ''Doe'' ''Jane'',
                               person ''Lee'' ''Kim''])) ''Author''
       = Some (PStr ''Smith, J., Doe, J., & Lee, K.'')"
proof -
  have "fetch_metadata_excel title
         (found (authors_only [person ''Smith'' ''John'', person ''Doe'' ''Jane'',
                               person ''Lee'' ''Kim''])) ''Author''
       = Some (PStr ''Smith, J., Doe, J., & Lee, K.'')"
    by (simp add: fetch_metadata_excel_def found_def first_item_def authors_only_def
        person_def item_metadata_excel_def item_authors_filter get_def usable_def entry_def
        spec_initials_def str_split_def isspace_def author_string_excel_def
        metadata_dict_def item_year_def item_journal_def)
  then show ?thesis
    by (simp add: author_string_excel_def butlast_append)
qed

theorem author_string_excel_by_count_witness:
  "author_string_excel [''Smith, J.'', ''Doe, J.'', ''Lee, K.'', ''Kim, S.'']
     = ''Smith, J., Doe, J., Lee, K., & Kim, S.''"
  using author_string_excel_by_count
    [of "''Smith, J.''" "''Doe, J.''" "[''Lee, K.'']" "''Kim, S.''"]
  by simp

section \<open>The template of the CSV script\<close>

text \<open>
  Claim C2. For a record without error marker whose eight fields are present (strings,
  the year any value), \<open>format_apa_excel\<close> returns exactly
  \<^verbatim>\<open>{Author} ({Year}). {Title}. *{Journal}*, {Volume}{Issue}, {Pages}. {DOI}\<close>, where
  the issue segment is \<^verbatim>\<open>({issue})\<close> unless the issue is \<^verbatim>\<open>N/A\<close>, when it is empty,
  and the identifier segment is \<^verbatim>\<open>https://doi.org/{doi}\<close> unless the DOI is \<^verbatim>\<open>N/A\<close>,
  when it is \<^verbatim>\<open>N/A\<close>. The year is put in as the f-string renders it; it has a
  rendering exactly when it is a string or an integer of at most 4300 digits, and
  otherwise the conversion raises and no string is composed. The specification's
  end-to-end example, fetched and composed, is the string the specification gives.
\<close>

theorem format_apa_excel_template:
  assumes "m ''Error'' = None"
    and "m ''Author'' = Some (PStr a)" and "m ''Year'' = Some y"
    and "m ''Title'' = Some (PStr t)" and "m ''Journal'' = Some (PStr j)"
    and "m ''Volume'' = Some (PStr v)" and "m ''Issue'' = Some (PStr i)"
    and "m ''Pages'' = Some (PStr p)" and "m ''DOI'' = Some (PStr d)"
  shows "format_apa_excel m =
     bind_result (py_str y) (\<lambda>year.
       Inr (PStr (a @ '' ('' @ year @ ''). '' @ t @ ''. *'' @ j @ ''*, '' @ v
                  @ (if i \<noteq> ''N/A'' then ''('' @ i @ '')'' else '''') @ '', '' @ p @ ''. ''
                  @ (if d \<noteq> ''N/A'' then ''https://doi.org/'' @ d else ''N/A''))))
     \<and> (renders y \<longleftrightarrow> (\<exists>year. py_str y = Inr year))
     \<and> format_apa_excel (fetch_metadata_excel ''Study X'' (found study_x)) =
       Inr (PStr ''Lee, A. (2020). Study X. *J. of Things*, 5(2), 10-20. https://doi.org/10.1/abc'')"
proof (intro conjI)
  show "format_apa_excel m =
     bind_result (py_str y) (\<lambda>year.
       Inr (PStr (a @ '' ('' @ year @ ''). '' @ t @ ''. *'' @ j @ ''*, '' @ v
                  @ (if i \<noteq> ''N/A'' then ''('' @ i @ '')'' else '''') @ '', '' @ p @ ''. ''
                  @ (if d \<noteq> ''N/A'' then ''https://doi.org/'' @ d else ''N/A''))))"
    using assms by (rule format_apa_excel_strings)
  show "renders y \<longleftrightarrow> (\<exists>year. py_str y = Inr year)"
    by (simp add: py_str_renders)
  show "format_apa_excel (fetch_metadata_excel ''Study X'' (found study_x)) =
       Inr (PStr ''Lee, A. (2020). Study X. *J. of Things*, 5(2), 10-20. https://doi.org/10.1/abc'')"
    by code_simp
qed

theorem format_apa_excel_template_witness:
  "format_apa_excel
     [''Author'' \<mapsto> PStr ''Lee, A.'', ''Year'' \<mapsto> PInt 2020, ''Title'' \<mapsto> PStr ''Study X'',
      ''Journal'' \<mapsto> PStr ''J. of Things'', ''Volume'' \<mapsto> PStr ''5'', ''Issue'' \<mapsto> PStr ''N/A'',
      ''Pages'' \<mapsto> PStr ''10-20'', ''DOI'' \<mapsto> PStr ''N/A'']
   = Inr (PStr ''Lee, A. (2020). Study X. *J. of Things*, 5, 10-20. N/A'')"
  using format_apa_excel_template
      [where m = "[''Author'' \<mapsto> PStr ''Lee, A.'', ''Year'' \<mapsto> PInt 2020,
                   ''Title'' \<mapsto> PStr ''Study X'', ''Journal'' \<mapsto> PStr ''J. of Things'',
                   ''Volume'' \<mapsto> PStr ''5'', ''Issue'' \<mapsto> PStr ''N/A'',
                   ''Pages'' \<mapsto> PStr ''10-20'', ''DOI'' \<mapsto> PStr ''N/A'']"
         and a = "''Lee, A.''" and y = "PInt 2020" and t = "''Study X''"
         and j = "''J. of Things''" and v = "''5''" and i = "''N/A''" and p = "''10-20''"
         and d = "''N/A''"]
  by (simp add: str_int_2020 bind_result_def)

section \<open>The error marker\<close>

text \<open>
  Claim C4. When the metadata carries an error marker, both composers return the value
  stored under \<^verbatim>\<open>"Error"\<close> and nothing else: the CSV script the message itself, the
  document script the message in place of the dictionary of fields. No other key of the
  metadata is read.
\<close>

theorem format_apa_error_passthrough:
  assumes "m ''Error'' = Some v"
  shows "format_apa_excel m = Inr v \<and> format_apa_word m = Inr (Message v)"
  using assms by (simp add: format_apa_excel_def format_apa_word_def getitem_def domI)

theorem format_apa_error_passthrough_witness:
  "fetch_metadata_excel ''Study X'' (Inr \<lparr>message = Some \<lparr>items = Some []\<rparr>\<rparr>) ''Error''
     = Some (PStr ''No data found for this title.'')
   \<and> format_apa_excel (fetch_metadata_excel ''Study X'' (Inr \<lparr>message = Some \<lparr>items = Some []\<rparr>\<rparr>))
     = Inr (PStr ''No data found for this title.'')
   \<and> format_apa_word (fetch_metadata_excel ''Study X'' (Inr \<lparr>message = Some \<lparr>items = Some []\<rparr>\<rparr>))
     = Inr (Message (PStr ''No data found for this title.''))"
proof -
  have e: "fetch_metadata_excel ''Study X'' (Inr \<lparr>message = Some \<lparr>items = Some []\<rparr>\<rparr>) ''Error''
     = Some (PStr ''No data found for this title.'')"
    by (simp add: fetch_metadata_excel_def first_item_def error_dict_def)
  from format_apa_error_passthrough
         [of "fetch_metadata_excel ''Study X'' (Inr \<lparr>message = Some \<lparr>items = Some []\<rparr>\<rparr>)"
             "PStr ''No data found for this title.''"] e
  show ?thesis
    by simp
qed

section \<open>One author entry\<close>

text \<open>
  Claim C5. An author whose given and family names are both non-empty is rendered as
  \<^verbatim>\<open>"{family}, {initials}"\<close>; the initials are the first characters of the tokens of
  the given name split on whitespace, each followed by a full stop, joined by single
  spaces. No token is empty, so each has a first character. The given name
  \<^verbatim>\<open>John Michael\<close> yields \<^verbatim>\<open>J. M.\<close>
\<close>

theorem author_entry_rendering:
  assumes "g \<noteq> []" and "f \<noteq> []"
  shows "authors_loop [\<lparr>given = Some g, family = Some f\<rparr>]
           = Inr [f @ '', '' @ str_join '' '' (map (\<lambda>name. [hd name] @ ''.'') (str_split g))]
         \<and> [] \<notin> set (str_split g)
         \<and> initials ''John Michael'' = Inr ''J. M.''"
proof -
  have "initials ''John Michael'' = Inr ''J. M.''"
    by (simp add: initials_def str_split_def isspace_def)
  moreover have "[] \<notin> set (str_split g)"
    using str_split_nonempty by blast
  ultimately show ?thesis
    using assms
    by (simp add: authors_loop_filter usable_def entry_def spec_initials_def get_def)
qed

theorem author_entry_rendering_witness:
  "authors_loop [\<lparr>given = Some ''John Michael'', family = Some ''Smith''\<rparr>] = Inr [''Smith, J. M.'']"
proof -
  have "str_split ''John Michael'' = [''John'', ''Michael'']"
    by (simp add: str_split_def isspace_def)
  with author_entry_rendering [of "''John Michael''" "''Smith''"] show ?thesis
    by simp
qed

section \<open>Unusable authors\<close>

lemma metadata_dict_author:
  "metadata_dict s title it = Inr m \<Longrightarrow> m ''Author'' = Some (PStr s)"
  by (auto simp: metadata_dict_def split: sum.splits)

text \<open>
  Claim C6. The author loop never raises, and its result is exactly the rendered entries
  of the usable authors, in their order: an author whose given or family name is missing
  or empty contributes nothing. When no author of the item is usable, both scripts build
  the metadata with the placeholder \<^verbatim>\<open>N/A\<close> as author string; the authors cause no
  error.
\<close>

theorem unusable_authors_dropped:
  "authors_loop as = Inr (map entry (filter usable as))
   \<and> (item_author it = Some as \<and> (\<forall>a\<in>set as. \<not> usable a) \<longrightarrow>
        item_metadata_excel title it = metadata_dict ''N/A'' title it
        \<and> item_metadata_word title it = metadata_dict ''N/A'' title it)"
proof -
  have "filter usable as = []" if "\<forall>a\<in>set as. \<not> usable a"
    using that by (simp add: filter_empty_conv)
  then show ?thesis
    by (simp add: authors_loop_filter item_metadata_excel_def item_metadata_word_def
        item_authors_filter get_def author_string_excel_def author_string_word_def)
qed

theorem unusable_authors_dropped_witness:
  "authors_loop [\<lparr>given = None, family = Some ''Smith''\<rparr>, \<lparr>given = Some ''Jane'', family = Some ''Doe''\<rparr>,
                 \<lparr>given = Some ''Kim'', family = Some ''''\<rparr>]
     = Inr [''Doe, J.'']
   \<and> fetch_metadata_excel ''T''
        (found (authors_only [\<lparr>given = None, family = Some ''Smith''\<rparr>,
                              \<lparr>given = Some '''', family = Some ''Doe''\<rparr>,
                              \<lparr>given = Some ''Kim'', family = None\<rparr>])) ''Author''
     = Some (PStr ''N/A'')
   \<and> fetch_metadata_word ''T''
        (found (authors_only [\<lparr>given = None, family = Some ''Smith''\<rparr>,
                              \<lparr>given = Some '''', family = Some ''Doe''\<rparr>,
                              \<lparr>given = Some ''Kim'', family = None\<rparr>])) ''Author''
     = Some (PStr ''N/A'')"
proof -
  let ?as = "[\<lparr>given = None, family = Some ''Smith''\<rparr>, \<lparr>given = Some '''', family = Some ''Doe''\<rparr>,
              \<lparr>given = Some ''Kim'', family = None\<rparr>]"
  have split: "str_split ''Jane'' = [''Jane'']"
    by (simp add: str_split_def isspace_def)
  show ?thesis
    using unusable_authors_dropped
            [of "[\<lparr>given = None, family = Some ''Smith''\<rparr>,
                  \<lparr>given = Some ''Jane'', family = Some ''Doe''\<rparr>,
                  \<lparr>given = Some ''Kim'', family = Some ''''\<rparr>]"]
          unusable_authors_dropped [of ?as "authors_only ?as" "''T''"]
    by (simp add: usable_def entry_def spec_initials_def split get_def
        fetch_metadata_excel_def fetch_metadata_word_def found_def first_item_def
        authors_only_def metadata_dict_def item_year_def item_journal_def)
qed

section \<open>A given name of whitespace only\<close>

text \<open>
  Claim C10. An author whose family name is non-empty and whose given name is non-empty
  but consists of whitespace only is kept: the split of the given name has no token, the
  initials are empty, and the entry is the family name followed by \<^verbatim>\<open>", "\<close> and nothing
  else, wherever the author stands in the list.
\<close>

theorem whitespace_given_kept:
  assumes "g \<noteq> []" and "\<forall>c\<in>set g. isspace c" and "f \<noteq> []"
  shows "usable \<lparr>given = Some g, family = Some f\<rparr>
         \<and> str_split g = []
         \<and> authors_loop (before @ \<lparr>given = Some g, family = Some f\<rparr> # after)
           = Inr (map entry (filter usable before) @ (f @ '', '') # map entry (filter usable after))"
proof -
  have "str_split g = []"
    using assms(2) by (simp add: str_split_def split_from_whitespace)
  then show ?thesis
    using assms
    by (simp add: authors_loop_filter usable_def entry_def spec_initials_def get_def)
qed

theorem whitespace_given_kept_witness:
  "authors_loop [\<lparr>given = Some '' '', family = Some ''Smith''\<rparr>] = Inr [''Smith, '']
   \<and> fetch_metadata_excel ''T'' (found (authors_only [\<lparr>given = Some '' '', family = Some ''Smith''\<rparr>]))
        ''Author'' = Some (PStr ''Smith, '')"
proof -
  have ws: "\<forall>c\<in>set '' ''. isspace c"
    by (simp add: isspace_def)
  from whitespace_given_kept [of "'' ''" "''Smith''" "[]" "[]"] ws
  have loop: "authors_loop [\<lparr>given = Some '' '', family = Some ''Smith''\<rparr>] = Inr [''Smith, '']"
    by simp
  then show ?thesis
    by (simp add: fetch_metadata_excel_def found_def first_item_def authors_only_def
        item_metadata_excel_def item_authors_def author_string_excel_def
        metadata_dict_def item_year_def item_journal_def get_def)
qed

section \<open>The author string and the other fields\<close>

text \<open>
  Claim C9. The author string of the metadata is a function of the authors of the item
  alone. In both scripts the metadata of an item is built from the author string that
  the combination rule gives for the entries of its usable authors, whatever the title,
  year, journal, volume, issue, pages and DOI are; so a second item with the same
  authors is built from the same author string, also when building the dictionary of
  one of them ends in an error. Where a dictionary is built, its \<^verbatim>\<open>"Author"\<close> is that
  string.
\<close>

theorem author_string_depends_on_authors_only:
  "item_metadata_excel title it
     = metadata_dict (author_string_excel (map entry (filter usable (get (item_author it) [])))) title it
   \<and> item_metadata_word title it
     = metadata_dict (author_string_word (map entry (filter usable (get (item_author it) [])))) title it
   \<and> (item_author i1 = item_author i2 \<longrightarrow>
        item_metadata_excel t2 i2
          = metadata_dict (author_string_excel (map entry (filter usable (get (item_author i1) [])))) t2 i2
        \<and> item_metadata_word t2 i2
          = metadata_dict (author_string_word (map entry (filter usable (get (item_author i1) [])))) t2 i2)
   \<and> (metadata_dict s title it = Inr m \<longrightarrow> m ''Author'' = Some (PStr s))"
  by (simp add: item_metadata_excel_def item_metadata_word_def item_authors_filter
      metadata_dict_author)

theorem author_string_depends_on_authors_only_witness:
  "item_metadata_excel ''Study X'' study_x = metadata_dict ''Lee, A.'' ''Study X'' study_x
   \<and> item_metadata_excel ''Other'' study_x_no_journal
       = metadata_dict ''Lee, A.'' ''Other'' study_x_no_journal
   \<and> item_metadata_word ''Study X'' study_x = metadata_dict ''Lee, A.'' ''Study X'' study_x
   \<and> item_metadata_word ''Other'' study_x_no_journal
       = metadata_dict ''Lee, A.'' ''Other'' study_x_no_journal
   \<and> metadata_dict ''Lee, A.'' ''Other'' study_x_no_journal = Inl IndexError
   \<and> fetch_metadata_excel ''Study X'' (found study_x) ''Author'' = Some (PStr ''Lee, A.'')
   \<and> fetch_metadata_excel ''Other'' (found study_x_no_journal) ''Author'' = None"
proof -
  have same: "item_author study_x = item_author study_x_no_journal"
    by (simp add: study_x_no_journal_def)
  have authors: "map entry (filter usable (get (item_author study_x) [])) = [''Lee, A.'']"
    by (simp add: study_x_def person_def get_def usable_def entry_def spec_initials_def
        str_split_def isspace_def)
  have strings: "author_string_excel [''Lee, A.''] = ''Lee, A.''"
    "author_string_word [''Lee, A.''] = ''Lee, A.''"
    by (simp_all add: author_string_excel_def author_string_word_def)
  have no_journal: "metadata_dict ''Lee, A.'' ''Other'' study_x_no_journal = Inl IndexError"
    by (simp add: metadata_dict_def item_year_def item_journal_def get_def study_x_def
        study_x_no_journal_def)
  have fetched: "fetch_metadata_excel ''Other'' (found study_x_no_journal) ''Author'' = None"
    using no_journal
    by (simp add: fetch_metadata_excel_def found_def first_item_def item_metadata_excel_def
        item_authors_filter same [symmetric] authors strings error_dict_def)
  from author_string_depends_on_authors_only
         [of "''Study X''" study_x study_x study_x_no_journal "''Other''"]
       same authors strings no_journal fetched fetch_study_x
  show ?thesis
    by simp
qed

text \<open>
  Claim C3. The two scripts do not produce the same author string: for the two authors
  John Smith and Jane Doe the CSV script gives \<^verbatim>\<open>Smith, J. & Doe, J.\<close> and the document
  script gives \<^verbatim>\<open>Smith, J., Doe, J.\<close>
\<close>

theorem author_strings_of_the_two_scripts_differ:
  "fetch_metadata_excel ''T'' (found (authors_only [person ''Smith'' ''John'', person ''Doe'' ''Jane''])) ''Author''
     = Some (PStr ''Smith, J. & Doe, J.'')
   \<and> fetch_metadata_word ''T'' (found (authors_only [person ''Smith'' ''John'', person ''Doe'' ''Jane''])) ''Author''
     = Some (PStr ''Smith, J., Doe, J.'')"
  by (simp add: fetch_metadata_excel_def fetch_metadata_word_def found_def first_item_def
      authors_only_def person_def item_metadata_excel_def item_metadata_word_def
      item_authors_filter get_def usable_def entry_def spec_initials_def str_split_def
      isspace_def author_string_excel_def author_string_word_def
      metadata_dict_def item_year_def item_journal_def)

lemma author_strings_agree_up_to_one:
  "length authors \<le> 1 \<Longrightarrow> author_string_word authors = author_string_excel authors"
  by (cases authors) (simp_all add: author_string_word_def author_string_excel_def)

section \<open>When the composers return\<close>

lemma py_str_text_of: "py_str v = (if renders v then Inr (text_of v) else Inl ValueError)"
  by (cases v) (simp_all add: str_int_cases)

lemma issue_segment_text_of:
  "issue_segment v =
     (if renders v then Inr (if v \<noteq> PStr ''N/A'' then ''('' @ text_of v @ '')'' else '''')
      else Inl ValueError)"
  by (cases v) (auto simp: issue_segment_def bind_result_def py_str_text_of)

lemma doi_segment_text_of:
  "doi_segment v =
     (if renders v then Inr (if v \<noteq> PStr ''N/A'' then ''https://doi.org/'' @ text_of v else ''N/A'')
      else Inl ValueError)"
  by (cases v) (auto simp: doi_segment_def bind_result_def py_str_text_of)

lemma well_shaped_fields:
  assumes "well_shaped m"
  obtains a y t j v i p d where
    "m ''Error'' = None" "m ''Author'' = Some a" "m ''Year'' = Some y" "m ''Title'' = Some t"
    "m ''Journal'' = Some j" "m ''Volume'' = Some v" "m ''Issue'' = Some i"
    "m ''Pages'' = Some p" "m ''DOI'' = Some d"
  using assms unfolding well_shaped_def by auto

lemma format_apa_excel_returns:
  assumes "well_shaped m"
  shows "((\<exists>s. format_apa_excel m = Inr (PStr s))
            \<longleftrightarrow> (\<forall>k\<in>set (''Author'' # non_author_keys). renders_at m k))
         \<and> ((\<exists>s. format_apa_excel m = Inr (PStr s)) \<or> format_apa_excel m = Inl ValueError)"
proof -
  from assms obtain a y t j v i p d where f:
    "m ''Error'' = None" "m ''Author'' = Some a" "m ''Year'' = Some y" "m ''Title'' = Some t"
    "m ''Journal'' = Some j" "m ''Volume'' = Some v" "m ''Issue'' = Some i"
    "m ''Pages'' = Some p" "m ''DOI'' = Some d"
    by (rule well_shaped_fields)
  have all: "(\<forall>k\<in>set (''Author'' # non_author_keys). renders_at m k)
      \<longleftrightarrow> renders a \<and> renders y \<and> renders t \<and> renders j \<and> renders v \<and> renders i
          \<and> renders p \<and> renders d"
    using f by (simp add: non_author_keys_def renders_at_def)
  have "format_apa_excel m =
      (if renders a \<and> renders y \<and> renders t \<and> renders j \<and> renders v \<and> renders i
          \<and> renders p \<and> renders d
       then Inr (PStr (text_of a @ '' ('' @ text_of y @ ''). '' @ text_of t @ ''. *''
                       @ text_of j @ ''*, '' @ text_of v
                       @ (if i \<noteq> PStr ''N/A'' then ''('' @ text_of i @ '')'' else '''')
                       @ '', '' @ text_of p @ ''. ''
                       @ (if d \<noteq> PStr ''N/A'' then ''https://doi.org/'' @ text_of d else ''N/A'')))
       else Inl ValueError)"
    using f
    by (simp add: format_apa_excel_def domIff lookups_present [where m = m] apa_reference_def
        bind_result_def py_str_text_of issue_segment_text_of doi_segment_text_of del: if_split)
  then show ?thesis
    unfolding all by (simp del: if_split)
qed

lemma format_apa_word_returns:
  assumes "well_shaped m"
  shows "((\<exists>d. format_apa_word m = Inr (Reference d))
            \<longleftrightarrow> renders_at m ''Issue'' \<and> renders_at m ''DOI'')
         \<and> ((\<exists>d. format_apa_word m = Inr (Reference d)) \<or> format_apa_word m = Inl ValueError)"
proof -
  from assms obtain a y t j v i p d where f:
    "m ''Error'' = None" "m ''Author'' = Some a" "m ''Year'' = Some y" "m ''Title'' = Some t"
    "m ''Journal'' = Some j" "m ''Volume'' = Some v" "m ''Issue'' = Some i"
    "m ''Pages'' = Some p" "m ''DOI'' = Some d"
    by (rule well_shaped_fields)
  have both: "renders_at m ''Issue'' \<and> renders_at m ''DOI'' \<longleftrightarrow> renders i \<and> renders d"
    using f by (simp add: renders_at_def)
  have "lookups m =
      (if renders i \<and> renders d
       then Inr \<lparr>f_author = a, f_year = y, f_title = t, f_journal = j, f_volume = v,
              f_issue = (if i \<noteq> PStr ''N/A'' then ''('' @ text_of i @ '')'' else ''''),
              f_pages = p,
              f_doi = (if d \<noteq> PStr ''N/A'' then ''https://doi.org/'' @ text_of d else ''N/A'')\<rparr>
       else Inl ValueError)"
    using f
    by (simp add: lookups_present [where m = m] bind_result_def issue_segment_text_of
        doi_segment_text_of del: if_split)
  with f(1) show ?thesis
    unfolding both by (simp add: format_apa_word_def domIff del: if_split)
qed

lemma long_year_fields:
  "long_year ''Error'' = None" "long_year ''Author'' = Some (PStr ''N/A'')"
  "long_year ''Year'' = Some (PInt (10 ^ int_max_str_digits))"
  "long_year ''Title'' = Some (PStr ''Study X'')" "long_year ''Journal'' = Some (PStr ''N/A'')"
  "long_year ''Volume'' = Some (PStr ''N/A'')" "long_year ''Issue'' = Some (PStr ''N/A'')"
  "long_year ''Pages'' = Some (PStr ''N/A'')" "long_year ''DOI'' = Some (PStr ''N/A'')"
  by (simp_all add: long_year_def all_sentinels_def)

text \<open>
  Claim C8, as stated, fails: the all-sentinel record with an integer year of 4301
  digits is well-shaped, and the f-string of the CSV script raises \<^verbatim>\<open>ValueError\<close> on it.
\<close>

theorem long_year_raises:
  "well_shaped long_year
   \<and> int_max_str_digits = 4300
   \<and> long_year ''Year'' = Some (PInt (10 ^ int_max_str_digits))
   \<and> format_apa_excel long_year = Inl ValueError"
proof -
  have "py_str (PInt (10 ^ int_max_str_digits)) = Inl ValueError"
    by (simp add: str_int_cases)
  with format_apa_excel_strings [of long_year, OF long_year_fields]
  have "format_apa_excel long_year = Inl ValueError"
    by (simp add: bind_result_def)
  moreover have "well_shaped long_year"
    by (simp add: well_shaped_def long_year_fields)
  moreover have "int_max_str_digits = 4300"
    by (simp add: int_max_str_digits_def)
  ultimately show ?thesis
    using long_year_fields(3) by (simp only: simp_thms)
qed

text \<open>
  Claim C8, amended. On a well-shaped record (no error marker, the eight fields present)
  the CSV script returns a string exactly when every field can be rendered as text, and
  the document script returns a dictionary exactly when the issue and the DOI can; every
  string can be rendered, an integer when it has at most 4300 decimal digits. Otherwise
  the composer raises \<^verbatim>\<open>ValueError\<close> and nothing else. Both composers are total
  functions without recursion. The record whose fields all hold their sentinels is
  rendered by both.
\<close>

theorem format_apa_returns_when_rendered:
  assumes "well_shaped m"
  shows "((\<exists>s. format_apa_excel m = Inr (PStr s))
            \<longleftrightarrow> (\<forall>k\<in>set (''Author'' # non_author_keys). renders_at m k))
         \<and> ((\<exists>s. format_apa_excel m = Inr (PStr s)) \<or> format_apa_excel m = Inl ValueError)
         \<and> ((\<exists>d. format_apa_word m = Inr (Reference d))
            \<longleftrightarrow> renders_at m ''Issue'' \<and> renders_at m ''DOI'')
         \<and> ((\<exists>d. format_apa_word m = Inr (Reference d)) \<or> format_apa_word m = Inl ValueError)"
proof -
  note excel = format_apa_excel_returns [OF assms] and word = format_apa_word_returns [OF assms]
  from excel [THEN conjunct1] excel [THEN conjunct2] word [THEN conjunct1] word [THEN conjunct2]
  show ?thesis
    by - (intro conjI, assumption+)
qed

theorem format_apa_returns_when_rendered_witness:
  "well_shaped all_sentinels
   \<and> (\<exists>s. format_apa_excel all_sentinels = Inr (PStr s))
   \<and> (\<exists>d. format_apa_word all_sentinels = Inr (Reference d))"
proof -
  have shaped: "well_shaped all_sentinels"
    by (simp add: well_shaped_def all_sentinels_def)
  have all: "\<forall>k\<in>set (''Author'' # non_author_keys). renders_at all_sentinels k"
    by (simp add: non_author_keys_def renders_at_def all_sentinels_def)
  have two: "renders_at all_sentinels ''Issue'' \<and> renders_at all_sentinels ''DOI''"
    by (simp add: renders_at_def all_sentinels_def)
  from format_apa_returns_when_rendered [OF shaped] all two shaped show ?thesis
    by (simp only: simp_thms)
qed

section \<open>Recovering the fields from the composed reference\<close>

lemma is_strE: "is_str v \<Longrightarrow> (\<And>s. v = Some (PStr s) \<Longrightarrow> P) \<Longrightarrow> P"
  by (auto simp: is_str_def split: option.splits pyval.splits)

lemma is_yearE:
  "is_year v \<Longrightarrow> (\<And>n. v = Some (PInt n) \<Longrightarrow> P) \<Longrightarrow> (v = Some (PStr ''n.d.'') \<Longrightarrow> P) \<Longrightarrow> P"
  by (auto simp: is_year_def split: option.splits pyval.splits)




lemma well_typed_fields:
  assumes "well_typed m"
  obtains a y t j v i p d where
    "m ''Error'' = None" "m ''Author'' = Some (PStr a)" "m ''Year'' = Some y"
    "m ''Title'' = Some (PStr t)" "m ''Journal'' = Some (PStr j)" "m ''Volume'' = Some (PStr v)"
    "m ''Issue'' = Some (PStr i)" "m ''Pages'' = Some (PStr p)" "m ''DOI'' = Some (PStr d)"
    "is_year (Some y)"
proof -
  from assms have e: "m ''Error'' = None" and s: "is_str (m ''Author'')" "is_str (m ''Title'')"
    "is_str (m ''Journal'')" "is_str (m ''Volume'')" "is_str (m ''Issue'')"
    "is_str (m ''Pages'')" "is_str (m ''DOI'')" and y: "is_year (m ''Year'')"
    by (simp_all add: well_typed_def)
  from y obtain yv where "m ''Year'' = Some yv"
    by (auto elim: is_yearE)
  with y e s that show ?thesis
    by (auto elim!: is_strE)
qed






section \<open>The whole pipeline\<close>

lemma item_year_typed: "item_year it = Inr y \<Longrightarrow> is_year (Some y)"
  by (auto simp: item_year_def is_year_def Let_def split: list.splits option.splits if_splits)

lemma item_journal_typed: "item_journal it = Inr j \<Longrightarrow> is_str (Some j)"
  by (auto simp: item_journal_def is_str_def split: list.splits)

lemma metadata_dict_well_typed:
  assumes "metadata_dict s title it = Inr m"
  shows "well_typed m \<and> well_shaped m"
proof -
  from assms obtain y j where y: "item_year it = Inr y" and j: "item_journal it = Inr j"
    and m: "m = [''Author'' \<mapsto> PStr s, ''Year'' \<mapsto> y, ''Title'' \<mapsto> PStr title,
                 ''Journal'' \<mapsto> j, ''Volume'' \<mapsto> PStr (get (item_volume it) ''N/A''),
                 ''Issue'' \<mapsto> PStr (get (item_issue it) ''N/A''),
                 ''Pages'' \<mapsto> PStr (get (item_page it) ''N/A''),
                 ''DOI'' \<mapsto> PStr (get (item_DOI it) ''N/A'')]"
    by (auto simp: metadata_dict_def split: sum.splits)
  from item_year_typed [OF y] item_journal_typed [OF j] show ?thesis
    unfolding m by (cases y; cases j) (simp_all add: well_typed_def well_shaped_def is_str_def is_year_def)
qed

lemma fetch_metadata_excel_shape:
  "(\<exists>e. fetch_metadata_excel title response = error_dict e)
   \<or> well_typed (fetch_metadata_excel title response) \<and> well_shaped (fetch_metadata_excel title response)"
proof (cases response)
  case (Inl e)
  then show ?thesis by (auto simp: fetch_metadata_excel_def)
next
  case (Inr d)
  show ?thesis
  proof (cases "first_item d")
    case None
    with Inr show ?thesis by (auto simp: fetch_metadata_excel_def)
  next
    case (Some it)
    show ?thesis
    proof (cases "item_metadata_excel title it")
      case (Inl e)
      with Inr Some show ?thesis by (auto simp: fetch_metadata_excel_def)
    next
      case meta: (Inr m)
      then have "well_typed m \<and> well_shaped m"
        by (simp add: item_metadata_excel_def item_authors_filter metadata_dict_well_typed)
      with Inr Some meta show ?thesis by (simp add: fetch_metadata_excel_def)
    qed
  qed
qed

lemma fetch_metadata_word_shape:
  "(\<exists>e. fetch_metadata_word title response = error_dict e)
   \<or> well_typed (fetch_metadata_word title response) \<and> well_shaped (fetch_metadata_word title response)"
proof (cases response)
  case (Inl e)
  then show ?thesis by (auto simp: fetch_metadata_word_def)
next
  case (Inr d)
  show ?thesis
  proof (cases "first_item d")
    case None
    with Inr show ?thesis by (auto simp: fetch_metadata_word_def)
  next
    case (Some it)
    show ?thesis
    proof (cases "item_metadata_word title it")
      case (Inl e)
      with Inr Some show ?thesis by (auto simp: fetch_metadata_word_def)
    next
      case meta: (Inr m)
      then have "well_typed m \<and> well_shaped m"
        by (simp add: item_metadata_word_def item_authors_filter metadata_dict_well_typed)
      with Inr Some meta show ?thesis by (simp add: fetch_metadata_word_def)
    qed
  qed
qed

lemma well_typed_renders:
  assumes "well_typed m" and "k \<in> set (''Author'' # non_author_keys)" and "k \<noteq> ''Year''"
  shows "renders_at m k"
proof -
  from assms(1) obtain a y t j v i p d where
    "m ''Error'' = None" "m ''Author'' = Some (PStr a)" "m ''Year'' = Some y"
    "m ''Title'' = Some (PStr t)" "m ''Journal'' = Some (PStr j)"
    "m ''Volume'' = Some (PStr v)" "m ''Issue'' = Some (PStr i)"
    "m ''Pages'' = Some (PStr p)" "m ''DOI'' = Some (PStr d)"
    by (rule well_typed_fields)
  with assms(2, 3) show ?thesis
    by (auto simp: renders_at_def non_author_keys_def)
qed

text \<open>
  Whatever the title and the outcome of the network exchange, composing the result of
  \<open>fetch_metadata\<close> in the document script does not raise. In the CSV script it raises
  only when the year of the item is an integer of more than 4300 digits, which the JSON
  parser of the same runtime refuses to read.
\<close>

lemma pipeline_returns:
  "(\<exists>r. format_apa_word (fetch_metadata_word title response) = Inr r)
   \<and> ((\<exists>s. format_apa_excel (fetch_metadata_excel title response) = Inr (PStr s))
      \<or> (\<exists>n. fetch_metadata_excel title response ''Year'' = Some (PInt n)
             \<and> \<not> renders (PInt n)
             \<and> format_apa_excel (fetch_metadata_excel title response) = Inl ValueError))"
proof
  show "\<exists>r. format_apa_word (fetch_metadata_word title response) = Inr r"
    using fetch_metadata_word_shape [of title response]
  proof (elim disjE exE conjE)
    fix e assume "fetch_metadata_word title response = error_dict e"
    then show ?thesis
      by (simp add: format_apa_word_def error_dict_def getitem_def)
  next
    let ?m = "fetch_metadata_word title response"
    assume typed: "well_typed ?m" and shaped: "well_shaped ?m"
    from typed have "renders_at ?m ''Issue''" "renders_at ?m ''DOI''"
      by (rule well_typed_renders; simp add: non_author_keys_def)+
    with format_apa_word_returns [OF shaped] show ?thesis
      by blast
  qed
  let ?m = "fetch_metadata_excel title response"
  show "(\<exists>s. format_apa_excel ?m = Inr (PStr s))
      \<or> (\<exists>n. ?m ''Year'' = Some (PInt n) \<and> \<not> renders (PInt n)
             \<and> format_apa_excel ?m = Inl ValueError)"
    using fetch_metadata_excel_shape [of title response]
  proof (elim disjE exE conjE)
    fix e assume "?m = error_dict e"
    then show ?thesis
      by (simp add: format_apa_excel_def error_dict_def getitem_def)
  next
    assume typed: "well_typed ?m" and shaped: "well_shaped ?m"
    note returns = format_apa_excel_returns [OF shaped]
    show ?thesis
    proof (cases "renders_at ?m ''Year''")
      case True
      have "renders_at ?m k" if "k \<in> set (''Author'' # non_author_keys)" for k
      proof (cases "k = ''Year''")
        case True
        with \<open>renders_at ?m ''Year''\<close> show ?thesis by simp
      next
        case False
        with typed that show ?thesis by (rule well_typed_renders)
      qed
      with returns show ?thesis by blast
    next
      case False
      then have "\<not> (\<forall>k\<in>set (''Author'' # non_author_keys). renders_at ?m k)"
        by (auto simp: non_author_keys_def)
      with returns have raised: "format_apa_excel ?m = Inl ValueError"
        by blast
      from typed have "is_year (?m ''Year'')"
        by (simp add: well_typed_def)
      with False obtain n where "?m ''Year'' = Some (PInt n)" "\<not> renders (PInt n)"
        by (auto simp: renders_at_def elim!: is_yearE)
      with raised show ?thesis by blast
    qed
  qed
qed

text \<open>
  Every result of \<open>fetch_metadata\<close> is the error dictionary or a record that is
  well-shaped and well-typed, in either script.
\<close>

lemma fetch_metadata_result_shape:
  "((\<exists>e. fetch_metadata_excel title response = error_dict e)
    \<or> well_typed (fetch_metadata_excel title response)
      \<and> well_shaped (fetch_metadata_excel title response))
   \<and> ((\<exists>e. fetch_metadata_word title response = error_dict e)
    \<or> well_typed (fetch_metadata_word title response)
      \<and> well_shaped (fetch_metadata_word title response))"
  using fetch_metadata_excel_shape [of title response] fetch_metadata_word_shape [of title response]
  by blast

end
